theory Spec2Isabelle
  imports Complex_Main "HOL-Library.Multiset"
begin

section \<open>Data model (lib/types.ts, lib/advanced-draft-analyzer.ts)\<close>

text \<open>
  A JavaScript \<open>number\<close> that carries a measurement (a score, a rate, a count of games)
  is modelled as a \<open>real\<close>: the arithmetic of the scoring engine is the exact one, without
  the rounding of IEEE doubles. Hero ids are integers and positions are naturals; the
  \<open>limit\<close> of a suggestion list is a \<open>number\<close> like any other. The role tags of a hero are an open set of strings, as in the source.
\<close>

datatype PrimaryAttr = attr_agi | attr_str | attr_int | attr_all

datatype AttackType = Melee | Ranged

record Hero =
  id_h :: int
  name :: string
  localized_name :: string
  primary_attr :: PrimaryAttr
  attack_type :: AttackType
  roles :: "string list"
  img :: string
  icon :: string

section \<open>MLSynergyPredictor\<close>

definition supportRoles :: "string list" where
  "supportRoles = [''Support'', ''Disabler'']"

definition coreRoles :: "string list" where
  "coreRoles = [''Carry'', ''Nuker'', ''Pusher'']"

text \<open>\<open>hero.roles?.some((role) => rs.includes(role))\<close>\<close>

definition someRoleIn :: "string list \<Rightarrow> Hero \<Rightarrow> bool" where
  "someRoleIn rs h = list_ex (\<lambda>role. role \<in> set rs) (roles h)"

definition predictHeroSynergy :: "Hero \<Rightarrow> Hero \<Rightarrow> real" where
  "predictHeroSynergy hero1 hero2 =
     (let synergy = 0.5;
          hero1IsSupport = someRoleIn supportRoles hero1;
          hero2IsCore = someRoleIn coreRoles hero2;
          synergy = (if hero1IsSupport \<and> hero2IsCore then synergy + 0.2 else synergy);
          synergy = (if attack_type hero1 \<noteq> attack_type hero2 then synergy + 0.05 else synergy)
      in min 1 (max 0 synergy))"

text \<open>
  The inner loop \<open>for (j = i + 1; j < heroes.length; j++)\<close> runs over the heroes behind
  \<open>heroes[i]\<close>; the accumulator is the pair \<open>(totalSynergy, pairCount)\<close>.
\<close>

fun synergyInner :: "Hero \<Rightarrow> Hero list \<Rightarrow> real \<times> nat \<Rightarrow> real \<times> nat" where
  "synergyInner hi [] acc = acc"
| "synergyInner hi (hj # rest) (totalSynergy, pairCount) =
     synergyInner hi rest (totalSynergy + predictHeroSynergy hi hj, pairCount + 1)"

fun synergyOuter :: "Hero list \<Rightarrow> real \<times> nat \<Rightarrow> real \<times> nat" where
  "synergyOuter [] acc = acc"
| "synergyOuter (hi # rest) acc = synergyOuter rest (synergyInner hi rest acc)"

definition predictTeamSynergy :: "Hero list \<Rightarrow> real" where
  "predictTeamSynergy heroes =
     (if length heroes < 2 then 0.5
      else (case synergyOuter heroes (0, 0) of
              (totalSynergy, pairCount) \<Rightarrow>
                if pairCount > 0 then totalSynergy / real pairCount else 0.5))"

section \<open>Analysis records\<close>

datatype Phase = early | mid | late

datatype Playstyle = aggressive | defensive | balanced

datatype ItemStrategy = strategy_early | strategy_scaling | strategy_utility

text \<open>Every field of the game context is optional; an absent field is \<open>None\<close>.\<close>

record GameContext =
  expectedDuration :: "real option"
  preferredLanes :: "nat list option"
  playstyle :: "Playstyle option"
  itemStrategy :: "ItemStrategy option"

record ItemBuild =
  build_name :: string
  items :: "string list"
  timing_b :: "real list"
  effectiveness :: real
  gamePhase :: Phase

record LaneAssignment =
  position :: nat
  hero_la :: Hero
  confidence_la :: real
  reasoning_la :: "string list"

record TimingWindow =
  phase :: Phase
  start_w :: real
  end_w :: real
  powerLevel :: real
  keyItems :: "string list"
  objectives :: "string list"

record ProPattern =
  pickOrder :: real
  banPriority :: real
  firstPickRate :: real
  situationalPickRate :: real
  pairings :: "(int \<times> real) list"
  counters_p :: "(int \<times> real) list"

record ScoreBreakdown =
  meta :: real
  counter :: real
  synergy :: real
  itemSynergy :: real
  laneOptimization :: real
  timing :: real
  proPattern :: real
  mlSynergy :: real

record AdvancedSuggestion =
  hero_s :: Hero
  score_s :: real
  reasons :: "string list"
  breakdown :: ScoreBreakdown
  itemSynergy_s :: "ItemBuild list"
  laneOptimization_s :: "LaneAssignment list"
  timingWindows :: "TimingWindow list"
  proPatterns :: ProPattern

text \<open>\<open>hero.roles?.includes(r)\<close>\<close>

definition hasRole :: "Hero \<Rightarrow> string \<Rightarrow> bool" where
  "hasRole h r = (r \<in> set (roles h))"

section \<open>ItemBuildAnalyzer\<close>

text \<open>
  \<open>gameContext.expectedDuration && gameContext.expectedDuration < 30\<close> is falsy when the
  duration is absent and when it is 0.
\<close>

definition generateItemBuilds :: "Hero \<Rightarrow> GameContext \<Rightarrow> ItemBuild list" where
  "generateItemBuilds h gameContext =
     (let isEarlyGame = (case expectedDuration gameContext of
                           None \<Rightarrow> False | Some d \<Rightarrow> d \<noteq> 0 \<and> d < 30);
          isLateGame = (case expectedDuration gameContext of
                           None \<Rightarrow> False | Some d \<Rightarrow> d \<noteq> 0 \<and> d > 45);
          isAggressive = (playstyle gameContext = Some aggressive)
      in (if hasRole h ''Carry'' then
            [\<lparr> build_name = (if isEarlyGame then ''Early Game Carry'' else ''Carry Build''),
               items = (if isEarlyGame
                        then [''power_treads'', ''drums'', ''black_king_bar'', ''desolator'']
                        else [''power_treads'', ''battle_fury'', ''black_king_bar'', ''daedalus'']),
               timing_b = (if isEarlyGame then [6, 12, 20, 28] else [8, 18, 25, 35]),
               effectiveness = (if isAggressive then 0.9 else 0.85),
               gamePhase = (if isEarlyGame then early else mid) \<rparr>]
          else [])
       @ (if hasRole h ''Support'' then
            [\<lparr> build_name = ''Support Build'',
               items = [''arcane_boots'', ''force_staff'', ''glimmer_cape'', ''aether_lens''],
               timing_b = [6, 15, 25, 35], effectiveness = 0.8, gamePhase = early \<rparr>]
          else [])
       @ (if hasRole h ''Initiator'' then
            [\<lparr> build_name = ''Initiator Build'',
               items = [''blink_dagger'', ''black_king_bar'', ''pipe'', ''crimson_guard''],
               timing_b = [12, 20, 30, 40], effectiveness = 0.75, gamePhase = mid \<rparr>]
          else [])
       @ (if hasRole h ''Nuker'' then
            [\<lparr> build_name = ''Nuker Build'',
               items = [''arcane_boots'', ''aether_lens'', ''aghanims_scepter'', ''refresher''],
               timing_b = [10, 18, 28, 45], effectiveness = 0.9,
               gamePhase = (if isLateGame then late else mid) \<rparr>]
          else []))"

definition calculateItemSynergy :: "Hero \<Rightarrow> Hero list \<Rightarrow> real" where
  "calculateItemSynergy h teamHeroes =
     (let synergy = 0.5;
          synergy = (if hasRole h ''Support'' \<and> list_ex (\<lambda>t. hasRole t ''Carry'') teamHeroes
                     then synergy + 0.3 else synergy)
      in min 1 synergy)"

section \<open>LaneOptimizer\<close>

text \<open>
  The set \<open>takenPositions\<close> is filled from every hero of the team that is passed in, in
  list order; \<open>optimizeLanes\<close> passes the whole input list, the hero under assignment
  included.
\<close>

definition markTaken :: "Hero \<Rightarrow> nat set \<Rightarrow> nat set" where
  "markTaken h takenPositions =
     (let t = (if hasRole h ''Carry'' then insert 1 takenPositions else takenPositions);
          t = (if hasRole h ''Nuker'' then insert 2 t else t);
          t = (if hasRole h ''Initiator'' then insert 3 t else t);
          t = (if hasRole h ''Support'' then insert 5 t else t)
      in t)"

definition takenPositionsOf :: "Hero list \<Rightarrow> nat set" where
  "takenPositionsOf teamHeroes = fold markTaken teamHeroes {}"

definition determineOptimalPosition :: "Hero \<Rightarrow> Hero list \<Rightarrow> nat" where
  "determineOptimalPosition h teamHeroes =
     (let takenPositions = takenPositionsOf teamHeroes
      in if hasRole h ''Carry'' \<and> 1 \<notin> takenPositions then 1
         else if hasRole h ''Nuker'' \<and> 2 \<notin> takenPositions then 2
         else if hasRole h ''Initiator'' \<and> 3 \<notin> takenPositions then 3
         else if hasRole h ''Support'' \<and> 5 \<notin> takenPositions then 5
         else (case find (\<lambda>pos. pos \<notin> takenPositions) [1, 2, 3, 4, 5] of
                 Some pos \<Rightarrow> pos
               | None \<Rightarrow> 4))"

definition calculatePositionConfidence :: "Hero \<Rightarrow> nat \<Rightarrow> real" where
  "calculatePositionConfidence h pos =
     (let c = 0.5;
          c = (if pos = 1 \<and> hasRole h ''Carry'' then c + 0.4 else c);
          c = (if pos = 2 \<and> hasRole h ''Nuker'' then c + 0.4 else c);
          c = (if pos = 3 \<and> hasRole h ''Initiator'' then c + 0.4 else c);
          c = (if pos = 4 \<and> hasRole h ''Support'' then c + 0.3 else c);
          c = (if pos = 5 \<and> hasRole h ''Support'' then c + 0.4 else c);
          c = (if pos = 1 \<and> primary_attr h = attr_agi then c + 0.1 else c);
          c = (if pos = 2 \<and> primary_attr h = attr_int then c + 0.1 else c);
          c = (if pos = 3 \<and> primary_attr h = attr_str then c + 0.1 else c)
      in min 1 c)"

definition getPositionReasoning :: "Hero \<Rightarrow> nat \<Rightarrow> string list" where
  "getPositionReasoning h pos =
       (if pos = 1 then [''Strong late game scaling''] else [])
     @ (if pos = 2 then [''High burst damage potential''] else [])
     @ (if pos = 3 then [''Initiator and space creator''] else [])
     @ (if pos = 4 then [''Utility and roaming potential''] else [])
     @ (if pos = 5 then [''Strong support abilities''] else [])"

definition optimizeLanes :: "Hero list \<Rightarrow> LaneAssignment list" where
  "optimizeLanes heroes =
     map (\<lambda>h. let pos = determineOptimalPosition h heroes
               in \<lparr> position = pos, hero_la = h,
                    confidence_la = calculatePositionConfidence h pos,
                    reasoning_la = getPositionReasoning h pos \<rparr>) heroes"

section \<open>TimingAnalyzer\<close>

definition calculateEarlyPower :: "Hero \<Rightarrow> real" where
  "calculateEarlyPower h =
     (let power = 0.5;
          power = (if primary_attr h = attr_str then power + 0.2 else power);
          power = (if hasRole h ''Support'' then power + 0.1 else power);
          power = (if hasRole h ''Nuker'' then power + 0.15 else power)
      in min 1 power)"

definition calculateMidPower :: "Hero \<Rightarrow> real" where
  "calculateMidPower h =
     (let power = 0.6;
          power = (if hasRole h ''Initiator'' then power + 0.2 else power);
          power = (if hasRole h ''Nuker'' then power + 0.15 else power);
          power = (if hasRole h ''Pusher'' then power + 0.1 else power)
      in min 1 power)"

definition calculateLatePower :: "Hero \<Rightarrow> real" where
  "calculateLatePower h =
     (let power = 0.5;
          power = (if hasRole h ''Carry'' then power + 0.3 else power);
          power = (if primary_attr h = attr_agi then power + 0.15 else power);
          power = (if hasRole h ''Durable'' then power + 0.1 else power)
      in min 1 power)"

text \<open>\<open>gameContext.expectedDuration || 40\<close>: an absent duration and the duration 0 give 40.\<close>

definition durationOrDefault :: "GameContext \<Rightarrow> real" where
  "durationOrDefault gameContext =
     (case expectedDuration gameContext of
        None \<Rightarrow> 40
      | Some d \<Rightarrow> if d = 0 then 40 else d)"

definition analyzeTimingWindows :: "Hero \<Rightarrow> GameContext \<Rightarrow> TimingWindow list" where
  "analyzeTimingWindows h gameContext =
     (let expDuration = durationOrDefault gameContext;
          isAggressive = (playstyle gameContext = Some aggressive)
      in [ \<lparr> phase = early, start_w = 0, end_w = (if isAggressive then 12 else 15),
              powerLevel = calculateEarlyPower h,
              keyItems = (if itemStrategy gameContext = Some strategy_early
                          then [''boots'', ''magic_wand'', ''bracer'']
                          else [''boots'', ''magic_wand'']),
              objectives = (if isAggressive
                            then [''Laning'', ''Early fights'', ''Tower pressure'']
                            else [''Laning'', ''Last hitting'']) \<rparr>,
           \<lparr> phase = mid, start_w = 15, end_w = 35,
              powerLevel = calculateMidPower h,
              keyItems = [''blink_dagger'', ''black_king_bar''],
              objectives = [''Team fights'', ''Objectives''] \<rparr>,
           \<lparr> phase = late, start_w = 35, end_w = max 60 expDuration,
              powerLevel = calculateLatePower h,
              keyItems = [''luxury_items''],
              objectives = [''High ground'', ''Ancient''] \<rparr> ])"

section \<open>ProSceneAnalyzer\<close>

text \<open>\<open>hero.roles?.length || 1\<close>: an empty role list counts as 1.\<close>

definition rolesLengthOr1 :: "Hero \<Rightarrow> real" where
  "rolesLengthOr1 h = (if length (roles h) = 0 then 1 else real (length (roles h)))"

definition complexHeroes :: "string list" where
  "complexHeroes = [''invoker'', ''meepo'', ''chen'', ''visage'']"

definition calculateSituationalRate :: "Hero \<Rightarrow> real" where
  "calculateSituationalRate h =
     (let rate = 0.4;
          rate = rate + rolesLengthOr1 h * 0.1;
          rate = (if name h \<in> set complexHeroes then rate + 0.2 else rate)
      in min 0.9 rate)"

definition getCommonPairings :: "Hero \<Rightarrow> (int \<times> real) list" where
  "getCommonPairings h =
       (if hasRole h ''Carry'' then [(1, 0.8), (2, 0.7)] else [])
     @ (if hasRole h ''Support'' then [(3, 0.8), (4, 0.7)] else [])"

definition getEffectiveCounters :: "Hero \<Rightarrow> (int \<times> real) list" where
  "getEffectiveCounters h =
       (if attack_type h = Melee then [(5, 0.7), (6, 0.6)] else [])
     @ (if hasRole h ''Carry'' then [(7, 0.8), (8, 0.7)] else [])"

definition analyzeProPatterns :: "Hero \<Rightarrow> ProPattern" where
  "analyzeProPatterns h =
     \<lparr> pickOrder = rolesLengthOr1 h,
       banPriority = min 10 (rolesLengthOr1 h * 2),
       firstPickRate = (if hasRole h ''Support'' then 0.3 else 0.1),
       situationalPickRate = calculateSituationalRate h,
       pairings = getCommonPairings h,
       counters_p = getEffectiveCounters h \<rparr>"

section \<open>Draft state and statistics\<close>

text \<open>
  Of a \<open>HeroStats\<close> record the engine reads the id and the pick and win counts; the eight
  fields \<open>pick_1\<close> to \<open>pick_8\<close> are the source's \<open>"1_pick"\<close> to \<open>"8_pick"\<close>.
\<close>

record HeroStats =
  id_st :: int
  pub_pick :: real
  pub_win :: real
  pro_pick :: real
  pro_win :: real
  pro_ban :: real
  turbo_picks :: real
  turbo_wins :: real
  pick_1 :: real
  pick_2 :: real
  pick_3 :: real
  pick_4 :: real
  pick_5 :: real
  pick_6 :: real
  pick_7 :: real
  pick_8 :: real

datatype DraftPhase = phase_pick | phase_completed

record DraftState =
  yourTeam :: "Hero option list"
  enemyTeam :: "Hero option list"
  currentPhase :: DraftPhase
  currentPick :: nat

record HeroMatchupData =
  hero_id :: int
  games_played :: real
  wins :: real

text \<open>\<open>team.filter((h) => h !== null)\<close>\<close>

fun presentHeroes :: "Hero option list \<Rightarrow> Hero list" where
  "presentHeroes [] = []"
| "presentHeroes (None # rest) = presentHeroes rest"
| "presentHeroes (Some h # rest) = h # presentHeroes rest"

text \<open>\<open>team.some((h) => h?.id === hero.id)\<close>: an empty slot never matches.\<close>

definition teamHasId :: "Hero option list \<Rightarrow> int \<Rightarrow> bool" where
  "teamHasId team i = list_ex (\<lambda>slot. case slot of None \<Rightarrow> False | Some h \<Rightarrow> id_h h = i) team"

text \<open>
  \<open>xs.slice(0, e)\<close> for a \<open>number\<close> \<open>e\<close>: the end is truncated towards zero; a negative
  end counts from the end of the array, a non-negative one is capped at the length.
\<close>

definition toIntegerJS :: "real \<Rightarrow> int" where
  "toIntegerJS e = (if e < 0 then \<lceil>e\<rceil> else \<lfloor>e\<rfloor>)"

definition sliceEnd :: "nat \<Rightarrow> real \<Rightarrow> nat" where
  "sliceEnd len e =
     (let relativeEnd = toIntegerJS e
      in if relativeEnd < 0 then nat (int len + relativeEnd) else min (nat relativeEnd) len)"

definition sliceJS :: "'a list \<Rightarrow> real \<Rightarrow> 'a list" where
  "sliceJS xs e = take (sliceEnd (length xs) e) xs"

text \<open>
  An exception is a value: a computation that may throw returns \<open>Inl\<close> of the error.
  \<open>mapE\<close> is \<open>Array.prototype.map\<close> with a callback that may throw: the first throw
  leaves the loop and no array is returned.
\<close>

datatype error = Thrown string

fun mapE :: "('a \<Rightarrow> error + 'b) \<Rightarrow> 'a list \<Rightarrow> error + 'b list" where
  "mapE f [] = Inr []"
| "mapE f (x # xs) =
     (case f x of
        Inl e \<Rightarrow> Inl e
      | Inr y \<Rightarrow> (case mapE f xs of Inl e \<Rightarrow> Inl e | Inr ys \<Rightarrow> Inr (y # ys)))"

section \<open>AdvancedDraftAnalyzer\<close>

record AdvancedDraftAnalyzer =
  heroes_a :: "Hero list"
  heroStats_a :: "HeroStats list"

definition matchesRoleFilter :: "Hero \<Rightarrow> string list \<Rightarrow> bool" where
  "matchesRoleFilter h roleFilter = list_ex (\<lambda>role. role \<in> set roleFilter) (roles h)"

definition metaHeroes :: "string list" where
  "metaHeroes = [''pudge'', ''invoker'', ''phantom_assassin'', ''sniper'']"

definition calculateMetaScore :: "Hero \<Rightarrow> real" where
  "calculateMetaScore h = (if name h \<in> set metaHeroes then 0.8 else 0.5)"

definition calculateCounterScore :: "Hero \<Rightarrow> Hero list \<Rightarrow> real" where
  "calculateCounterScore h enemies =
     (if length enemies = 0 then 0.5
      else min 1 (fold (\<lambda>enemy counterScore.
                          if attack_type h = Ranged \<and> attack_type enemy = Melee
                          then counterScore + 0.1 else counterScore) enemies 0 + 0.5))"

definition calculateSynergyScore :: "Hero \<Rightarrow> Hero list \<Rightarrow> real" where
  "calculateSynergyScore h team =
     (if length team = 0 then 0.5 else predictTeamSynergy (team @ [h]))"

text \<open>\<open>heroAssignment?.confidence || 0.5\<close>\<close>

definition calculateLaneOptimizationScore :: "Hero \<Rightarrow> Hero list \<Rightarrow> real" where
  "calculateLaneOptimizationScore h team =
     (case find (\<lambda>a. id_h (hero_la a) = id_h h) (optimizeLanes (team @ [h])) of
        None \<Rightarrow> 0.5
      | Some heroAssignment \<Rightarrow>
          if confidence_la heroAssignment = 0 then 0.5 else confidence_la heroAssignment)"

definition calculateTimingScore :: "Hero \<Rightarrow> GameContext \<Rightarrow> real" where
  "calculateTimingScore h gameContext =
     (let windows = analyzeTimingWindows h gameContext
      in foldl (\<lambda>sum w. sum + powerLevel w) 0 windows / real (length windows))"

definition calculateProPatternScore :: "Hero \<Rightarrow> real" where
  "calculateProPatternScore h =
     (let patterns = analyzeProPatterns h
      in (firstPickRate patterns + situationalPickRate patterns) / 2)"

definition calculateAdvancedScore :: "Hero \<Rightarrow> DraftState \<Rightarrow> GameContext \<Rightarrow> ScoreBreakdown" where
  "calculateAdvancedScore h draftState gameContext =
     (let team = presentHeroes (yourTeam draftState);
          enemies = presentHeroes (enemyTeam draftState)
      in \<lparr> meta = calculateMetaScore h,
           counter = calculateCounterScore h enemies,
           synergy = calculateSynergyScore h team,
           itemSynergy = calculateItemSynergy h team,
           laneOptimization = calculateLaneOptimizationScore h team,
           timing = calculateTimingScore h gameContext,
           proPattern = calculateProPatternScore h,
           mlSynergy = predictTeamSynergy (team @ [h]) \<rparr>)"

text \<open>
  \<open>Object.entries(breakdown)\<close> lists the eight fields in the order in which
  \<open>calculateAdvancedScore\<close> writes them; \<open>weights\<close> is the object literal of
  \<open>calculateTotalScore\<close>, indexed by \<open>keyof typeof weights\<close>.
\<close>

datatype BreakdownKey =
  key_meta | key_counter | key_synergy | key_itemSynergy
  | key_laneOptimization | key_timing | key_proPattern | key_mlSynergy

definition entries :: "ScoreBreakdown \<Rightarrow> (BreakdownKey \<times> real) list" where
  "entries b =
     [(key_meta, meta b), (key_counter, counter b), (key_synergy, synergy b),
      (key_itemSynergy, itemSynergy b), (key_laneOptimization, laneOptimization b),
      (key_timing, timing b), (key_proPattern, proPattern b), (key_mlSynergy, mlSynergy b)]"

fun weights :: "BreakdownKey \<Rightarrow> real" where
  "weights key_meta = 0.15"
| "weights key_counter = 0.2"
| "weights key_synergy = 0.2"
| "weights key_itemSynergy = 0.15"
| "weights key_laneOptimization = 0.1"
| "weights key_timing = 0.1"
| "weights key_proPattern = 0.05"
| "weights key_mlSynergy = 0.05"

definition calculateTotalScore :: "ScoreBreakdown \<Rightarrow> real" where
  "calculateTotalScore b =
     foldl (\<lambda>total kv. case kv of (key, v) \<Rightarrow> total + v * weights key) 0 (entries b)"

definition generateReasons :: "Hero \<Rightarrow> ScoreBreakdown \<Rightarrow> string list" where
  "generateReasons h b =
       (if counter b > 0.7 then [''Strong counter to enemy heroes''] else [])
     @ (if synergy b > 0.7 then [''Excellent synergy with team''] else [])
     @ (if itemSynergy b > 0.7 then [''Great item synergy potential''] else [])
     @ (if timing b > 0.7 then [''Perfect timing window''] else [])
     @ (if meta b > 0.7 then [''Currently meta''] else [])"

text \<open>The filter of \<open>generateAdvancedSuggestions\<close>; an absent role filter is \<open>None\<close>.\<close>

definition availableHeroes :: "AdvancedDraftAnalyzer \<Rightarrow> DraftState \<Rightarrow> string list option \<Rightarrow> Hero list" where
  "availableHeroes this draftState roleFilter =
     filter (\<lambda>h. \<not> teamHasId (yourTeam draftState) (id_h h)
                \<and> \<not> teamHasId (enemyTeam draftState) (id_h h)
                \<and> (case roleFilter of
                      None \<Rightarrow> True
                    | Some rf \<Rightarrow> length rf = 0 \<or> matchesRoleFilter h rf))
       (heroes_a this)"

text \<open>The callback of \<open>availableHeroes.map\<close>: the suggestion built for one candidate.\<close>

definition suggestionFor :: "DraftState \<Rightarrow> GameContext \<Rightarrow> Hero \<Rightarrow> AdvancedSuggestion" where
  "suggestionFor draftState gameContext h =
     (let b = calculateAdvancedScore h draftState gameContext;
          totalScore = calculateTotalScore b
      in \<lparr> hero_s = h, score_s = totalScore, reasons = generateReasons h b, breakdown = b,
           itemSynergy_s = generateItemBuilds h gameContext,
           laneOptimization_s = optimizeLanes (presentHeroes (yourTeam draftState) @ [h]),
           timingWindows = analyzeTimingWindows h gameContext,
           proPatterns = analyzeProPatterns h \<rparr>)"

text \<open>
  \<open>suggestions.sort((a, b) => b.score - a.score)\<close> is a stable sort by descending
  score, \<open>slice(0, 10)\<close> keeps the first ten. The function is given for any callback that
  may throw; the callback closes over the draft state and the game context of the call.
  The analyzer's own callback never throws.
\<close>

definition sortByScore :: "AdvancedSuggestion list \<Rightarrow> AdvancedSuggestion list" where
  "sortByScore suggestions = sort_key (\<lambda>s. - score_s s) suggestions"

type_synonym Callback = "DraftState \<Rightarrow> GameContext \<Rightarrow> Hero \<Rightarrow> error + AdvancedSuggestion"

definition generateAdvancedSuggestions_with ::
  "Callback \<Rightarrow> AdvancedDraftAnalyzer \<Rightarrow> DraftState \<Rightarrow> GameContext
     \<Rightarrow> string list option \<Rightarrow> error + AdvancedSuggestion list" where
  "generateAdvancedSuggestions_with callback this draftState gameContext roleFilter =
     (case mapE (callback draftState gameContext)
             (availableHeroes this draftState roleFilter) of
        Inl e \<Rightarrow> Inl e
      | Inr suggestions \<Rightarrow> Inr (take 10 (sortByScore suggestions)))"

definition generateAdvancedSuggestions ::
  "AdvancedDraftAnalyzer \<Rightarrow> DraftState \<Rightarrow> GameContext \<Rightarrow> string list option
     \<Rightarrow> error + AdvancedSuggestion list" where
  "generateAdvancedSuggestions this draftState gameContext roleFilter =
     generateAdvancedSuggestions_with (\<lambda>d c h. Inr (suggestionFor d c h))
       this draftState gameContext roleFilter"

section \<open>DraftAnalyzerIntegration\<close>

record DraftAnalyzerIntegration =
  advancedAnalyzer :: AdvancedDraftAnalyzer

definition emptyProPattern :: ProPattern where
  "emptyProPattern = \<lparr> pickOrder = 0, banPriority = 0, firstPickRate = 0,
     situationalPickRate = 0, pairings = [], counters_p = [] \<rparr>"

record EnhancedOptions =
  includeItemBuilds :: bool
  includeLaneOptimization :: bool
  includeTimingAnalysis :: bool
  includeProPatterns :: bool

definition filterComponents :: "EnhancedOptions \<Rightarrow> AdvancedSuggestion \<Rightarrow> AdvancedSuggestion" where
  "filterComponents opts suggestion =
     suggestion \<lparr>
       itemSynergy_s := (if includeItemBuilds opts then itemSynergy_s suggestion else []),
       laneOptimization_s :=
         (if includeLaneOptimization opts then laneOptimization_s suggestion else []),
       timingWindows := (if includeTimingAnalysis opts then timingWindows suggestion else []),
       proPatterns := (if includeProPatterns opts then proPatterns suggestion
                       else emptyProPattern) \<rparr>"

text \<open>
  \<open>getEnhancedRecommendations\<close> runs the advanced analyzer inside \<open>try\<close>; its
  \<open>catch\<close> logs the error and returns the empty list. The result is the settled promise:
  \<open>Inr\<close> when it is fulfilled.
\<close>

definition getEnhancedRecommendations_with ::
  "Callback \<Rightarrow> DraftAnalyzerIntegration \<Rightarrow> DraftState \<Rightarrow> GameContext
     \<Rightarrow> string list option \<Rightarrow> EnhancedOptions \<Rightarrow> error + AdvancedSuggestion list" where
  "getEnhancedRecommendations_with callback this draftState gameContext roleFilter opts =
     (case generateAdvancedSuggestions_with callback (advancedAnalyzer this) draftState
             gameContext roleFilter of
        Inr suggestions \<Rightarrow> Inr (map (filterComponents opts) suggestions)
      | Inl e \<Rightarrow> Inr [])"

section \<open>DraftAnalyzer (lib/draft-logic.ts)\<close>

datatype Confidence = high | medium | low

record DraftSuggestion =
  hero_d :: Hero
  score_d :: real
  win_rate :: real
  confidence :: Confidence
  reasoning :: "string list"
  counters :: "string list"
  synergies :: "string list"

record AdvancedDraftSuggestion = DraftSuggestion +
  advancedBreakdown :: ScoreBreakdown
  itemRecommendations :: "string list"
  optimalLane :: nat
  timingWindow :: Phase
  proPickRate :: real

record DraftAnalyzer =
  heroes :: "Hero list"
  heroStats :: "HeroStats list"
  matchupData :: "int \<rightharpoonup> HeroMatchupData list"
  integration :: DraftAnalyzerIntegration

definition newDraftAnalyzer :: "Hero list \<Rightarrow> HeroStats list \<Rightarrow> DraftAnalyzer" where
  "newDraftAnalyzer hs stats =
     \<lparr> heroes = hs, heroStats = stats, matchupData = Map.empty,
       integration = \<lparr> advancedAnalyzer = \<lparr> heroes_a = hs, heroStats_a = stats \<rparr> \<rparr> \<rparr>"

definition setMatchupData :: "DraftAnalyzer \<Rightarrow> int \<Rightarrow> HeroMatchupData list \<Rightarrow> DraftAnalyzer" where
  "setMatchupData this heroId matchups =
     this \<lparr> matchupData := (matchupData this)(heroId \<mapsto> matchups) \<rparr>"

text \<open>
  \<open>Number(x.toFixed(2))\<close> on exact arithmetic: the nearest multiple of 0.01, a tie going
  to the larger magnitude. \<open>Math.round\<close> takes a tie upwards.
\<close>

definition toFixed2 :: "real \<Rightarrow> real" where
  "toFixed2 x =
     (if x < 0 then - (real_of_int \<lfloor>(- x) * 100 + 1 / 2\<rfloor> / 100)
      else real_of_int \<lfloor>x * 100 + 1 / 2\<rfloor> / 100)"

definition mathRound :: "real \<Rightarrow> real" where
  "mathRound x = real_of_int \<lfloor>x + 1 / 2\<rfloor>"

definition calculateWinRate :: "real \<Rightarrow> real \<Rightarrow> real" where
  "calculateWinRate w games = (if games = 0 then 0 else toFixed2 ((w / games) * 100))"

definition findStats :: "HeroStats list \<Rightarrow> int \<Rightarrow> HeroStats option" where
  "findStats stats heroId = find (\<lambda>stat. id_st stat = heroId) stats"

text \<open>
  The keys of a \<open>HeroStats\<close> object that end in \<open>_pick\<close> are \<open>pub_pick\<close>,
  \<open>pro_pick\<close> and the eight bracket picks.
\<close>

definition pickFields :: "HeroStats \<Rightarrow> real list" where
  "pickFields st =
     [pub_pick st, pro_pick st, pick_1 st, pick_2 st, pick_3 st, pick_4 st,
      pick_5 st, pick_6 st, pick_7 st, pick_8 st]"

definition getMetaScore :: "DraftAnalyzer \<Rightarrow> int \<Rightarrow> real" where
  "getMetaScore this heroId =
     (case findStats (heroStats this) heroId of
        None \<Rightarrow> 50
      | Some heroStat \<Rightarrow>
          (let currentWinRate = calculateWinRate (pub_win heroStat) (pub_pick heroStat);
               normalizedWinRate = ((currentWinRate - 45) / 10) * 100;
               totalPicks = foldl (\<lambda>sum v. sum + v) 0 (pickFields heroStat);
               normalizedPickRate = min ((pub_pick heroStat / max totalPicks 1) * 100) 100
           in max 0 (min 100 ((normalizedWinRate + normalizedPickRate) / 2))))"

text \<open>
  The loop of \<open>getCounterScore\<close> over the enemy heroes, with the accumulator
  \<open>(totalScore, validMatchups)\<close>; \<open>matchups.find\<close> returns the first record of the enemy.
\<close>

definition counterStep :: "HeroMatchupData list \<Rightarrow> Hero \<Rightarrow> real \<times> nat \<Rightarrow> real \<times> nat" where
  "counterStep matchups enemy acc =
     (case acc of (totalScore, validMatchups) \<Rightarrow>
        (case find (\<lambda>m. hero_id m = id_h enemy) matchups of
           None \<Rightarrow> acc
         | Some matchup \<Rightarrow>
             if games_played matchup > 10
             then (totalScore + calculateWinRate (wins matchup) (games_played matchup),
                   validMatchups + 1)
             else acc))"

definition getCounterScore :: "DraftAnalyzer \<Rightarrow> int \<Rightarrow> Hero list \<Rightarrow> real" where
  "getCounterScore this heroId enemyHeroes =
     (if length enemyHeroes = 0 then 50
      else (case matchupData this heroId of
              None \<Rightarrow> 50
            | Some matchups \<Rightarrow>
                (case fold (counterStep matchups) enemyHeroes (0, 0) of
                   (totalScore, validMatchups) \<Rightarrow>
                     if validMatchups > 0 then totalScore / real validMatchups else 50)))"

definition getSynergyScore :: "DraftAnalyzer \<Rightarrow> int \<Rightarrow> Hero list \<Rightarrow> real" where
  "getSynergyScore this heroId teamHeroes =
     (if length teamHeroes = 0 then 50
      else (case find (\<lambda>h. id_h h = heroId) (heroes this) of
              None \<Rightarrow> 50
            | Some h \<Rightarrow>
                (let heroRoles = roles h;
                     teamRoles = concat (map roles teamHeroes);
                     s = 50;
                     s = (if ''Support'' \<in> set heroRoles \<and> ''Carry'' \<in> set teamRoles
                          then s + 10 else s);
                     s = (if ''Initiator'' \<in> set heroRoles \<and> ''Nuker'' \<in> set teamRoles
                          then s + 8 else s);
                     s = (if ''Disabler'' \<in> set heroRoles \<and> ''Carry'' \<in> set teamRoles
                          then s + 6 else s);
                     roleOverlap = length (filter (\<lambda>role. role \<in> set teamRoles) heroRoles);
                     s = s - real roleOverlap * 5
                 in max 0 (min 100 s))))"

definition getProScore :: "DraftAnalyzer \<Rightarrow> int \<Rightarrow> real" where
  "getProScore this heroId =
     (case findStats (heroStats this) heroId of
        None \<Rightarrow> 50
      | Some heroStat \<Rightarrow>
          (let totalPicks = pub_pick heroStat + pro_pick heroStat + turbo_picks heroStat;
               pickRate = (if totalPicks > 0 then (pub_pick heroStat / totalPicks) * 100 else 50)
           in min pickRate 100))"

definition getConfidenceLevel :: "real \<Rightarrow> nat \<Rightarrow> Confidence" where
  "getConfidenceLevel score enemyPickCount =
     (if enemyPickCount \<ge> 4 \<and> score > 70 then high
      else if enemyPickCount \<ge> 2 \<and> score > 60 then medium
      else low)"

text \<open>The result of \<open>generateReasoning\<close> is the triple (positive, counters, synergies).\<close>

definition generateReasoning ::
  "Hero \<Rightarrow> Hero list \<Rightarrow> Hero list \<Rightarrow> real \<Rightarrow> real \<Rightarrow> real
     \<Rightarrow> string list \<times> string list \<times> string list" where
  "generateReasoning h enemyHeroes teamHeroes metaScore counterScore synergyScore =
     (let r1 = (if metaScore > 70 then [''Strong in current meta'']
                else if metaScore < 40 then [''Below average meta performance''] else []);
          r2 = (if counterScore > 65 then [''Good matchups against enemy picks'']
                else if counterScore < 45 then [''Difficult matchups against enemy team'']
                else []);
          cs = (if counterScore > 65
                then map (\<lambda>enemy. ''Effective vs '' @ localized_name enemy) enemyHeroes
                else []);
          r3 = (if synergyScore > 60 then [''Good synergy with team composition''] else []);
          ss = (if synergyScore > 60
                then map (\<lambda>teammate. ''Synergizes with '' @ localized_name teammate) teamHeroes
                else []);
          r4 = (if ''Carry'' \<in> set (roles h) then [''Strong late-game potential''] else []);
          r5 = (if ''Support'' \<in> set (roles h) then [''Provides team utility''] else []);
          r6 = (if ''Initiator'' \<in> set (roles h) then [''Good team fight initiation''] else [])
      in (r1 @ r2 @ r3 @ r4 @ r5 @ r6, cs, ss))"

definition calculateHeroScore :: "DraftAnalyzer \<Rightarrow> Hero \<Rightarrow> DraftState \<Rightarrow> DraftSuggestion" where
  "calculateHeroScore this h draftState =
     (let enemyHeroes = presentHeroes (enemyTeam draftState);
          teamHeroes = presentHeroes (yourTeam draftState);
          metaScore = getMetaScore this (id_h h);
          counterScore = getCounterScore this (id_h h) enemyHeroes;
          synergyScore = getSynergyScore this (id_h h) teamHeroes;
          proScore = getProScore this (id_h h);
          finalScore = metaScore * 0.2 + counterScore * 0.4 + synergyScore * 0.3 + proScore * 0.1;
          conf = getConfidenceLevel finalScore (length enemyHeroes);
          winRate = (case findStats (heroStats this) (id_h h) of
                       None \<Rightarrow> 50
                     | Some heroStat \<Rightarrow> calculateWinRate (pub_win heroStat) (pub_pick heroStat))
      in (case generateReasoning h enemyHeroes teamHeroes metaScore counterScore synergyScore of
            (positive, cs, ss) \<Rightarrow>
              \<lparr> hero_d = h, score_d = mathRound finalScore, win_rate = winRate,
                confidence = conf, reasoning = positive, counters = cs, synergies = ss \<rparr>))"

text \<open>
  \<open>generateSuggestions\<close>: the picked ids are collected from both teams, the heroes are
  filtered, the role filter skips a hero with \<open>continue\<close>, the suggestions are sorted by
  descending score and cut by \<open>slice(0, limit)\<close>.
\<close>

definition pickedHeroes :: "DraftState \<Rightarrow> int set" where
  "pickedHeroes draftState =
     set (map id_h (presentHeroes (yourTeam draftState))
          @ map id_h (presentHeroes (enemyTeam draftState)))"

definition passesRoleFilter :: "string list option \<Rightarrow> Hero \<Rightarrow> bool" where
  "passesRoleFilter roleFilter h =
     (case roleFilter of
        None \<Rightarrow> True
      | Some rf \<Rightarrow>
          if length rf > 0 then list_ex (\<lambda>filterRole. filterRole \<in> set (roles h)) rf
          else True)"

definition generateSuggestions ::
  "DraftAnalyzer \<Rightarrow> DraftState \<Rightarrow> string list option \<Rightarrow> real \<Rightarrow> DraftSuggestion list" where
  "generateSuggestions this draftState roleFilter limit =
     (let picked = pickedHeroes draftState;
          available = filter (\<lambda>h. id_h h \<notin> picked) (heroes this);
          suggestions = map (\<lambda>h. calculateHeroScore this h draftState)
                          (filter (passesRoleFilter roleFilter) available)
      in sliceJS (sort_key (\<lambda>s. - score_d s) suggestions) limit)"

text \<open>
  \<open>DraftAnalyzer.generateAdvancedSuggestions\<close>: the \<open>try\<close> block awaits the
  integration layer and converts its suggestions; the \<open>catch\<close> block falls back to the
  basic suggestions, each with the neutral breakdown. \<open>DraftAnalyzer_tryCatch\<close> is the
  \<open>try\<close>/\<open>catch\<close> statement for a settled promise of the integration layer: \<open>Inr\<close>
  when it is fulfilled, \<open>Inl\<close> when it is rejected.
\<close>

definition allOptions :: EnhancedOptions where
  "allOptions = \<lparr> includeItemBuilds = True, includeLaneOptimization = True,
     includeTimingAnalysis = True, includeProPatterns = True \<rparr>"

definition convertSuggestion :: "DraftAnalyzer \<Rightarrow> AdvancedSuggestion \<Rightarrow> AdvancedDraftSuggestion" where
  "convertSuggestion this suggestion =
     \<lparr> hero_d = hero_s suggestion,
       score_d = score_s suggestion,
       win_rate = (case findStats (heroStats this) (id_h (hero_s suggestion)) of
                     None \<Rightarrow> 50
                   | Some hs \<Rightarrow> calculateWinRate (pub_win hs) (pub_pick hs)),
       confidence = (if score_s suggestion > 0.8 then high
                     else if score_s suggestion > 0.6 then medium else low),
       reasoning = reasons suggestion,
       counters = [],
       synergies = [],
       advancedBreakdown =
         \<lparr> meta = meta (breakdown suggestion), counter = counter (breakdown suggestion),
           synergy = synergy (breakdown suggestion),
           itemSynergy = itemSynergy (breakdown suggestion),
           laneOptimization = laneOptimization (breakdown suggestion),
           timing = timing (breakdown suggestion),
           proPattern = proPattern (breakdown suggestion),
           mlSynergy = mlSynergy (breakdown suggestion) \<rparr>,
       itemRecommendations = (case itemSynergy_s suggestion of [] \<Rightarrow> [] | b # _ \<Rightarrow> items b),
       optimalLane =
         (if length (laneOptimization_s suggestion) > 0
          then (case find (\<lambda>la. id_h (hero_la la) = id_h (hero_s suggestion))
                       (laneOptimization_s suggestion) of
                  None \<Rightarrow> 1
                | Some la \<Rightarrow> if position la = 0 then 1 else position la)
          else 1),
       timingWindow =
         (case timingWindows suggestion of
            [] \<Rightarrow> mid
          | w # ws \<Rightarrow>
              phase (foldl (\<lambda>best current.
                              if powerLevel current > powerLevel best then current else best)
                       w ws)),
       proPickRate = firstPickRate (proPatterns suggestion)
                     + situationalPickRate (proPatterns suggestion) \<rparr>"

definition neutralBreakdown :: ScoreBreakdown where
  "neutralBreakdown = \<lparr> meta = 0.5, counter = 0.5, synergy = 0.5, itemSynergy = 0.5,
     laneOptimization = 0.5, timing = 0.5, proPattern = 0.5, mlSynergy = 0.5 \<rparr>"

definition fallbackSuggestion :: "DraftSuggestion \<Rightarrow> AdvancedDraftSuggestion" where
  "fallbackSuggestion suggestion =
     \<lparr> hero_d = hero_d suggestion, score_d = score_d suggestion,
       win_rate = win_rate suggestion, confidence = confidence suggestion,
       reasoning = reasoning suggestion, counters = counters suggestion,
       synergies = synergies suggestion,
       advancedBreakdown = neutralBreakdown, itemRecommendations = [], optimalLane = 1,
       timingWindow = mid, proPickRate = 0.3 \<rparr>"

definition DraftAnalyzer_tryCatch ::
  "DraftAnalyzer \<Rightarrow> DraftState \<Rightarrow> string list option \<Rightarrow> real
     \<Rightarrow> error + AdvancedSuggestion list \<Rightarrow> AdvancedDraftSuggestion list" where
  "DraftAnalyzer_tryCatch this draftState roleFilter limit settled =
     (case settled of
        Inr advancedSuggestions \<Rightarrow>
          sliceJS (map (convertSuggestion this) advancedSuggestions) limit
      | Inl e \<Rightarrow> map fallbackSuggestion (generateSuggestions this draftState roleFilter limit))"

definition DraftAnalyzer_generateAdvancedSuggestions_with ::
  "Callback \<Rightarrow> DraftAnalyzer \<Rightarrow> DraftState \<Rightarrow> GameContext
     \<Rightarrow> string list option \<Rightarrow> real \<Rightarrow> AdvancedDraftSuggestion list" where
  "DraftAnalyzer_generateAdvancedSuggestions_with callback this draftState gameContext
       roleFilter limit =
     DraftAnalyzer_tryCatch this draftState roleFilter limit
       (getEnhancedRecommendations_with callback (integration this) draftState gameContext
          roleFilter allOptions)"

definition DraftAnalyzer_generateAdvancedSuggestions ::
  "DraftAnalyzer \<Rightarrow> DraftState \<Rightarrow> GameContext \<Rightarrow> string list option \<Rightarrow> real
     \<Rightarrow> AdvancedDraftSuggestion list" where
  "DraftAnalyzer_generateAdvancedSuggestions this draftState gameContext roleFilter limit =
     DraftAnalyzer_generateAdvancedSuggestions_with
       (\<lambda>d c h. Inr (suggestionFor d c h)) this draftState gameContext roleFilter limit"

section \<open>The counter score in the words of the specification\<close>

text \<open>
  For each enemy hero whose matchup record has enough games, that record's win rate; the
  score is the average of these rates, and the neutral 50 when there is none. The
  predicate \<open>enough\<close> is the sample threshold.
\<close>

definition validWinRates :: "(real \<Rightarrow> bool) \<Rightarrow> HeroMatchupData list \<Rightarrow> Hero list \<Rightarrow> real list" where
  "validWinRates enough matchups enemyHeroes =
     concat (map (\<lambda>enemy.
                    case find (\<lambda>m. hero_id m = id_h enemy) matchups of
                      None \<Rightarrow> []
                    | Some m \<Rightarrow> if enough (games_played m)
                                then [calculateWinRate (wins m) (games_played m)] else [])
              enemyHeroes)"

definition averageCounterScore ::
  "(real \<Rightarrow> bool) \<Rightarrow> (int \<rightharpoonup> HeroMatchupData list) \<Rightarrow> int \<Rightarrow> Hero list \<Rightarrow> real" where
  "averageCounterScore enough md heroId enemyHeroes =
     (if enemyHeroes = [] then 50
      else (case md heroId of
              None \<Rightarrow> 50
            | Some matchups \<Rightarrow>
                (let rates = validWinRates enough matchups enemyHeroes
                 in if rates = [] then 50 else sum_list rates / real (length rates))))"

section \<open>Concrete inputs\<close>

text \<open>Two heroes used as concrete inputs: a melee support and a melee carry.\<close>

definition supportHero :: Hero where
  "supportHero = \<lparr> id_h = 1, name = ''support_hero'', localized_name = ''Support Hero'',
     primary_attr = attr_int, attack_type = Melee, roles = [''Support''],
     img = [], icon = [] \<rparr>"

definition carryHero :: Hero where
  "carryHero = \<lparr> id_h = 2, name = ''carry_hero'', localized_name = ''Carry Hero'',
     primary_attr = attr_agi, attack_type = Melee, roles = [''Carry''],
     img = [], icon = [] \<rparr>"

definition nukerHero :: Hero where
  "nukerHero = \<lparr> id_h = 3, name = ''nuker_hero'', localized_name = ''Nuker Hero'',
     primary_attr = attr_int, attack_type = Ranged, roles = [''Nuker''],
     img = [], icon = [] \<rparr>"

definition initiatorHero :: Hero where
  "initiatorHero = \<lparr> id_h = 4, name = ''initiator_hero'', localized_name = ''Initiator Hero'',
     primary_attr = attr_str, attack_type = Melee, roles = [''Initiator''],
     img = [], icon = [] \<rparr>"

definition fourRoleTeam :: "Hero list" where
  "fourRoleTeam = [carryHero, nukerHero, initiatorHero, supportHero]"

definition emptyContext :: GameContext where
  "emptyContext = \<lparr> expectedDuration = None, preferredLanes = None, playstyle = None,
     itemStrategy = None \<rparr>"

text \<open>A draft in which the carry is picked by your team and the nuker by the enemy.\<close>

definition exampleDraft :: DraftState where
  "exampleDraft = \<lparr> yourTeam = [Some carryHero, None, None, None, None],
     enemyTeam = [Some nukerHero, None, None, None, None],
     currentPhase = phase_pick, currentPick = 2 \<rparr>"


definition exampleAnalyzer :: DraftAnalyzer where
  "exampleAnalyzer = newDraftAnalyzer fourRoleTeam []"

text \<open>
  The support hero has one matchup record against the nuker, with exactly 10 games, 7 of
  them won.
\<close>

definition tenGamesAnalyzer :: DraftAnalyzer where
  "tenGamesAnalyzer =
     setMatchupData exampleAnalyzer 1 [\<lparr> hero_id = 3, games_played = 10, wins = 7 \<rparr>]"

text \<open>The same record with 11 games.\<close>

definition elevenGamesAnalyzer :: DraftAnalyzer where
  "elevenGamesAnalyzer =
     setMatchupData exampleAnalyzer 1 [\<lparr> hero_id = 3, games_played = 11, wins = 7 \<rparr>]"



section \<open>The pairwise synergy predictor\<close>

lemma predictHeroSynergy_formula:
  "predictHeroSynergy a b =
     0.5 + (if someRoleIn supportRoles a \<and> someRoleIn coreRoles b then 0.2 else 0)
         + (if attack_type a \<noteq> attack_type b then 0.05 else 0)"
  by (simp add: predictHeroSynergy_def Let_def)

lemma predict_support_carry: "predictHeroSynergy supportHero carryHero = 0.7"
  by (simp add: predictHeroSynergy_formula someRoleIn_def supportRoles_def coreRoles_def
      supportHero_def carryHero_def)

lemma predict_carry_support: "predictHeroSynergy carryHero supportHero = 0.5"
  by (simp add: predictHeroSynergy_formula someRoleIn_def supportRoles_def coreRoles_def
      supportHero_def carryHero_def)

text \<open>
  Claim C10. The pairwise synergy predictor is not commutative: the 0.2 bonus is added
  exactly when the first hero is support-class and the second is core-class, so a support
  paired with a carry scores 0.7 and the same pair in the other order scores 0.5; the team
  synergy, which visits the index pairs \<open>i < j\<close> in list order, gives different values on
  two permutations of the same team.
\<close>

theorem predictHeroSynergy_not_commutative:
  "predictHeroSynergy a b =
     0.5 + (if someRoleIn supportRoles a \<and> someRoleIn coreRoles b then 0.2 else 0)
         + (if attack_type a \<noteq> attack_type b then 0.05 else 0)
   \<and> predictHeroSynergy supportHero carryHero \<noteq> predictHeroSynergy carryHero supportHero
   \<and> mset [supportHero, carryHero] = mset [carryHero, supportHero]
   \<and> predictTeamSynergy [supportHero, carryHero] = 0.7
   \<and> predictTeamSynergy [carryHero, supportHero] = 0.5"
proof -
  have pair: "predictHeroSynergy supportHero carryHero \<noteq> predictHeroSynergy carryHero supportHero"
    by (simp add: predict_support_carry predict_carry_support)
  have t1: "predictTeamSynergy [supportHero, carryHero] = 0.7"
    by (simp add: predictTeamSynergy_def predict_support_carry)
  have t2: "predictTeamSynergy [carryHero, supportHero] = 0.5"
    by (simp add: predictTeamSynergy_def predict_carry_support)
  have perm: "mset [supportHero, carryHero] = mset [carryHero, supportHero]"
    by simp
  from predictHeroSynergy_formula [of a b] pair perm t1 t2 show ?thesis
    by blast
qed


section \<open>The weighted total\<close>

text \<open>
  Claim C2. The total score of a breakdown is the dot product of its eight values with
  the fixed weights counter 0.20, synergy 0.20, meta 0.15, item-synergy 0.15,
  lane-optimization 0.10, timing 0.10, pro-pattern 0.05, ml-synergy 0.05, and the eight
  weights sum to 1.
\<close>

theorem calculateTotalScore_weighted_sum:
  "calculateTotalScore b =
       0.2 * counter b + 0.2 * synergy b + 0.15 * meta b + 0.15 * itemSynergy b
     + 0.1 * laneOptimization b + 0.1 * timing b + 0.05 * proPattern b + 0.05 * mlSynergy b
   \<and> calculateTotalScore b = sum_list (map (\<lambda>kv. snd kv * weights (fst kv)) (entries b))
   \<and> map (\<lambda>kv. weights (fst kv)) (entries b) = [0.15, 0.2, 0.2, 0.15, 0.1, 0.1, 0.05, 0.05]
   \<and> sum_list (map (\<lambda>kv. weights (fst kv)) (entries b)) = 1"
  by (simp add: calculateTotalScore_def entries_def)

section \<open>The timing windows\<close>

lemma calculateEarlyPower_bounds: "0 \<le> calculateEarlyPower h \<and> calculateEarlyPower h \<le> 1"
  by (simp add: calculateEarlyPower_def Let_def)

lemma calculateMidPower_bounds: "0 \<le> calculateMidPower h \<and> calculateMidPower h \<le> 1"
  by (simp add: calculateMidPower_def Let_def)

lemma calculateLatePower_bounds: "0 \<le> calculateLatePower h \<and> calculateLatePower h \<le> 1"
  by (simp add: calculateLatePower_def Let_def)

lemma late_window_end:
  "max 60 (durationOrDefault c) =
     (case expectedDuration c of None \<Rightarrow> 60 | Some d \<Rightarrow> max 60 d)"
  by (simp add: durationOrDefault_def split: option.splits)

text \<open>
  Claim C7. For every hero and game context the timing analyzer returns exactly the three
  windows early, mid, late; the early window runs from 0 to 12 when the playstyle is
  aggressive and to 15 otherwise, the mid window from 15 to 35, the late window from 35 to
  the maximum of 60 and the expected duration (60 when no duration is given), and every
  power level lies between 0 and 1.
\<close>

theorem analyzeTimingWindows_three_windows:
  "length (analyzeTimingWindows h c) = 3
   \<and> map phase (analyzeTimingWindows h c) = [early, mid, late]
   \<and> map start_w (analyzeTimingWindows h c) = [0, 15, 35]
   \<and> map end_w (analyzeTimingWindows h c) =
       [if playstyle c = Some aggressive then 12 else 15, 35,
        case expectedDuration c of None \<Rightarrow> 60 | Some d \<Rightarrow> max 60 d]
   \<and> list_all (\<lambda>w. 0 \<le> powerLevel w \<and> powerLevel w \<le> 1) (analyzeTimingWindows h c)"
  using calculateEarlyPower_bounds [of h] calculateMidPower_bounds [of h]
    calculateLatePower_bounds [of h] late_window_end [of c]
  by (simp add: analyzeTimingWindows_def Let_def)

section \<open>The lane optimizer\<close>

lemma markTaken_mono: "t \<subseteq> markTaken h t"
  by (auto simp add: markTaken_def Let_def)

lemma fold_markTaken_mono: "t \<subseteq> fold markTaken hs t"
proof (induction hs arbitrary: t)
  case Nil
  show ?case by simp
next
  case (Cons h hs)
  have "t \<subseteq> markTaken h t" by (rule markTaken_mono)
  also have "\<dots> \<subseteq> fold markTaken hs (markTaken h t)" by (rule Cons.IH)
  finally show ?case by simp
qed

lemma markTaken_slots:
  "(hasRole h ''Carry'' \<longrightarrow> 1 \<in> markTaken h t)
   \<and> (hasRole h ''Nuker'' \<longrightarrow> 2 \<in> markTaken h t)
   \<and> (hasRole h ''Initiator'' \<longrightarrow> 3 \<in> markTaken h t)
   \<and> (hasRole h ''Support'' \<longrightarrow> 5 \<in> markTaken h t)"
  by (simp add: markTaken_def Let_def)

lemma fold_markTaken_slots:
  "h \<in> set hs \<Longrightarrow>
   (hasRole h ''Carry'' \<longrightarrow> 1 \<in> fold markTaken hs t)
   \<and> (hasRole h ''Nuker'' \<longrightarrow> 2 \<in> fold markTaken hs t)
   \<and> (hasRole h ''Initiator'' \<longrightarrow> 3 \<in> fold markTaken hs t)
   \<and> (hasRole h ''Support'' \<longrightarrow> 5 \<in> fold markTaken hs t)"
proof (induction hs arbitrary: t)
  case Nil
  then show ?case by simp
next
  case (Cons x hs)
  show ?case
  proof (cases "h = x")
    case True
    with markTaken_slots [of x t] fold_markTaken_mono [of "markTaken x t" hs]
    show ?thesis by auto
  next
    case False
    with Cons.prems have "h \<in> set hs" by simp
    from Cons.IH [OF this, of "markTaken x t"] show ?thesis by simp
  qed
qed

text \<open>
  A hero of the team has marked its own canonical slots as taken, so none of the four
  role branches of \<open>determineOptimalPosition\<close> fires: every hero of the team gets the
  first position that no role of the team claims, or 4.
\<close>

lemma own_slot_never_free:
  assumes "h \<in> set hs"
  shows "determineOptimalPosition h hs =
           (case find (\<lambda>pos. pos \<notin> takenPositionsOf hs) [1, 2, 3, 4, 5] of
              Some pos \<Rightarrow> pos | None \<Rightarrow> 4)"
  using fold_markTaken_slots [OF assms, of "{}"]
  by (simp add: determineOptimalPosition_def takenPositionsOf_def Let_def)

lemma optimizeLanes_one_position:
  "a \<in> set (optimizeLanes hs) \<Longrightarrow>
     position a = (case find (\<lambda>pos. pos \<notin> takenPositionsOf hs) [1, 2, 3, 4, 5] of
                     Some pos \<Rightarrow> pos | None \<Rightarrow> 4)"
  by (auto simp add: optimizeLanes_def Let_def own_slot_never_free)

lemma takenPositionsOf_fourRoleTeam: "takenPositionsOf fourRoleTeam = {1, 2, 3, 5}"
  by (auto simp add: takenPositionsOf_def fourRoleTeam_def markTaken_def hasRole_def Let_def
      carryHero_def nukerHero_def initiatorHero_def supportHero_def)

text \<open>
  Claim C4. A team of a carry, a nuker, an initiator and a support, each tagged with one
  canonical role and none sharing a role with another, should get four distinct
  positions. The optimizer gives all four heroes position 4.
\<close>

theorem optimizeLanes_four_roles_collide:
  "map (\<lambda>a. roles (hero_la a)) (optimizeLanes fourRoleTeam)
     = [[''Carry''], [''Nuker''], [''Initiator''], [''Support'']]
   \<and> map position (optimizeLanes fourRoleTeam) = [4, 4, 4, 4]"
proof -
  have "map position (optimizeLanes fourRoleTeam) = [4, 4, 4, 4]"
    by (simp add: optimizeLanes_def determineOptimalPosition_def
        takenPositionsOf_fourRoleTeam Let_def) (simp add: fourRoleTeam_def)
  moreover have "map (\<lambda>a. roles (hero_la a)) (optimizeLanes fourRoleTeam)
     = [[''Carry''], [''Nuker''], [''Initiator''], [''Support'']]"
    by (simp add: optimizeLanes_def Let_def fourRoleTeam_def
        carryHero_def nukerHero_def initiatorHero_def supportHero_def)
  ultimately show ?thesis by simp
qed

section \<open>The counter score\<close>

lemma fold_counterStep:
  "fold (counterStep ms) es (t, n) =
     (t + sum_list (validWinRates (\<lambda>g. g > 10) ms es),
      n + length (validWinRates (\<lambda>g. g > 10) ms es))"
proof (induction es arbitrary: t n)
  case Nil
  show ?case by (simp add: validWinRates_def)
next
  case (Cons e es)
  show ?case
    using Cons.IH
    by (simp add: counterStep_def validWinRates_def split: option.splits)
qed

lemma calculateWinRate_7_10: "calculateWinRate 7 10 = 70"
  by (simp add: calculateWinRate_def toFixed2_def)

text \<open>
  Claim C3, as amended. The counter score is the average, over the enemy heroes whose
  first matchup record has more than 10 games, of that record's win rate; it is the
  neutral 50 when the enemy list is empty, when the hero has no matchup data and when no
  record has more than 10 games.
\<close>

theorem getCounterScore_average:
  "getCounterScore this heroId enemies =
     averageCounterScore (\<lambda>g. g > 10) (matchupData this) heroId enemies"
  by (simp add: getCounterScore_def averageCounterScore_def fold_counterStep Let_def
      split: option.splits)

text \<open>
  With a threshold of at least 10 games, a record of exactly 10 games with 7 wins would
  give the score 70; the code returns the neutral 50.
\<close>

theorem getCounterScore_ten_games_counterexample:
  "getCounterScore tenGamesAnalyzer 1 [nukerHero] = 50
   \<and> averageCounterScore (\<lambda>g. g \<ge> 10) (matchupData tenGamesAnalyzer) 1 [nukerHero] = 70"
  by (simp add: getCounterScore_def averageCounterScore_def validWinRates_def counterStep_def
      tenGamesAnalyzer_def setMatchupData_def nukerHero_def calculateWinRate_7_10)

text \<open>With 11 games and 7 wins the record counts: the score is its win rate 63.64.\<close>

theorem getCounterScore_average_witness:
  "getCounterScore elevenGamesAnalyzer 1 [nukerHero] = 63.64"
  using getCounterScore_average
    [of elevenGamesAnalyzer 1 "[nukerHero]"]
  by (simp add: elevenGamesAnalyzer_def averageCounterScore_def validWinRates_def
      setMatchupData_def nukerHero_def calculateWinRate_def toFixed2_def)

section \<open>The suggestion pipeline\<close>

text \<open>The slice is a prefix; for a natural number it is \<open>take\<close>.\<close>

lemma sliceEnd_le: "sliceEnd len e \<le> len"
  by (auto simp add: sliceEnd_def Let_def)

lemma length_sliceJS: "length (sliceJS xs e) = sliceEnd (length xs) e"
  using sliceEnd_le [of "length xs" e] by (simp add: sliceJS_def)

lemma sliceEnd_nat: "sliceEnd len (real k) = min k len"
  by (simp add: sliceEnd_def toIntegerJS_def)

lemma sliceEnd_numeral: "sliceEnd len (numeral k) = min (numeral k) len"
  using sliceEnd_nat [of len "numeral k"] by simp




lemma in_set_sliceJS: "x \<in> set (sliceJS xs e) \<Longrightarrow> x \<in> set xs"
  unfolding sliceJS_def by (rule in_set_takeD)

text \<open>A callback that never throws makes \<open>mapE\<close> the plain \<open>map\<close>.\<close>

lemma mapE_Inr: "mapE (\<lambda>x. Inr (f x)) xs = Inr (map f xs)"
  by (induction xs) simp_all

lemma mapE_throw: "list_ex (\<lambda>x. isl (f x)) xs \<Longrightarrow> isl (mapE f xs)"
  by (induction xs) (auto split: sum.splits)

lemma mapE_ok:
  "\<not> list_ex (\<lambda>x. isl (f x)) xs \<Longrightarrow> mapE f xs = Inr (map (\<lambda>x. projr (f x)) xs)"
  by (induction xs) (auto split: sum.splits)

lemma generateAdvancedSuggestions_eq:
  "generateAdvancedSuggestions this ds ctx rf =
     Inr (take 10 (sortByScore (map (suggestionFor ds ctx) (availableHeroes this ds rf))))"
  by (simp add: generateAdvancedSuggestions_def generateAdvancedSuggestions_with_def mapE_Inr)

lemma set_sortByScore: "set (sortByScore xs) = set xs"
  by (simp add: sortByScore_def)

lemma length_sortByScore: "length (sortByScore xs) = length xs"
  by (simp add: sortByScore_def)




lemma hero_suggestionFor: "hero_s (suggestionFor ds ctx h) = h"
  by (simp add: suggestionFor_def Let_def)

lemma available_not_picked:
  "h \<in> set (availableHeroes this ds rf) \<Longrightarrow>
     \<not> teamHasId (yourTeam ds) (id_h h) \<and> \<not> teamHasId (enemyTeam ds) (id_h h)"
  by (simp add: availableHeroes_def)

lemma teamHasId_iff: "teamHasId team i \<longleftrightarrow> i \<in> set (map id_h (presentHeroes team))"
  by (induction team rule: presentHeroes.induct) (auto simp add: teamHasId_def)

lemma slot_present: "Some p \<in> set team \<Longrightarrow> p \<in> set (presentHeroes team)"
  by (induction team rule: presentHeroes.induct) auto

text \<open>The later stages keep the hero and the score of a suggestion.\<close>

lemma hero_filterComponents: "hero_s (filterComponents opts s) = hero_s s"
  by (simp add: filterComponents_def)


lemma hero_convert: "hero_d (convertSuggestion this s) = hero_s s"
  by (simp add: convertSuggestion_def)


lemma hero_calculateHeroScore: "hero_d (calculateHeroScore this h ds) = h"
  by (simp add: calculateHeroScore_def Let_def split: prod.splits)

text \<open>
  One throw aborts the batch of the advanced analyzer; without a throw the batch is the
  sorted list of the callback's suggestions, cut to ten.
\<close>

lemma generateAdvancedSuggestions_with_throw:
  assumes "list_ex (\<lambda>h. isl (callback ds ctx h)) (availableHeroes a ds rf)"
  shows "isl (generateAdvancedSuggestions_with callback a ds ctx rf)"
proof -
  from mapE_throw [OF assms] obtain e where
    "mapE (callback ds ctx) (availableHeroes a ds rf) = Inl e"
    by (auto simp add: isl_def)
  then show ?thesis
    by (simp add: generateAdvancedSuggestions_with_def)
qed

lemma generateAdvancedSuggestions_with_ok:
  assumes "\<not> list_ex (\<lambda>h. isl (callback ds ctx h)) (availableHeroes a ds rf)"
  shows "generateAdvancedSuggestions_with callback a ds ctx rf =
     Inr (take 10 (sortByScore (map (\<lambda>h. projr (callback ds ctx h)) (availableHeroes a ds rf))))"
  using mapE_ok [OF assms] by (simp add: generateAdvancedSuggestions_with_def)

text \<open>
  The integration layer always fulfils its promise: with the empty list when a callback
  throws, with the filtered suggestions otherwise. The \<open>catch\<close> block of
  \<open>DraftAnalyzer.generateAdvancedSuggestions\<close> is therefore never entered through it.
\<close>

lemma getEnhanced_eq:
  "getEnhancedRecommendations_with callback this ds ctx rf opts =
     Inr (if list_ex (\<lambda>h. isl (callback ds ctx h)) (availableHeroes (advancedAnalyzer this) ds rf)
          then []
          else map (filterComponents opts)
                 (take 10 (sortByScore (map (\<lambda>h. projr (callback ds ctx h))
                    (availableHeroes (advancedAnalyzer this) ds rf)))))"
proof (cases "list_ex (\<lambda>h. isl (callback ds ctx h)) (availableHeroes (advancedAnalyzer this) ds rf)")
  case True
  with generateAdvancedSuggestions_with_throw [of callback ds ctx "advancedAnalyzer this" rf]
  obtain e where
    "generateAdvancedSuggestions_with callback (advancedAnalyzer this) ds ctx rf = Inl e"
    by (auto simp add: isl_def)
  with True show ?thesis
    by (simp add: getEnhancedRecommendations_with_def)
next
  case False
  with generateAdvancedSuggestions_with_ok [of callback ds ctx "advancedAnalyzer this" rf]
  show ?thesis
    by (simp add: getEnhancedRecommendations_with_def)
qed

lemma DraftAnalyzer_with_eq:
  "DraftAnalyzer_generateAdvancedSuggestions_with callback this ds ctx rf limit =
     (if list_ex (\<lambda>h. isl (callback ds ctx h))
           (availableHeroes (advancedAnalyzer (integration this)) ds rf)
      then []
      else sliceJS (map (convertSuggestion this) (map (filterComponents allOptions)
             (take 10 (sortByScore (map (\<lambda>h. projr (callback ds ctx h))
                (availableHeroes (advancedAnalyzer (integration this)) ds rf)))))) limit)"
  by (simp add: DraftAnalyzer_generateAdvancedSuggestions_with_def DraftAnalyzer_tryCatch_def
      getEnhanced_eq sliceJS_def)

lemma DraftAnalyzer_eq:
  "DraftAnalyzer_generateAdvancedSuggestions this ds ctx rf limit =
     sliceJS (map (convertSuggestion this) (map (filterComponents allOptions)
       (take 10 (sortByScore (map (suggestionFor ds ctx)
          (availableHeroes (advancedAnalyzer (integration this)) ds rf)))))) limit"
proof -
  have "\<not> list_ex (\<lambda>h. isl (Inr (suggestionFor ds ctx h) :: error + AdvancedSuggestion))
           (availableHeroes (advancedAnalyzer (integration this)) ds rf)"
    by (simp add: list_ex_iff)
  then show ?thesis
    by (simp add: DraftAnalyzer_generateAdvancedSuggestions_def DraftAnalyzer_with_eq)
qed

text \<open>Sorting and slicing a mapped list only returns images of its elements.\<close>

lemma in_take_sort_map:
  assumes "x \<in> set (take n (sort_key k (map g ys)))"
  shows "\<exists>y \<in> set ys. x = g y"
proof -
  from assms have "x \<in> set (sort_key k (map g ys))" by (rule in_set_takeD)
  then show ?thesis by auto
qed

lemma advanced_hero_available:
  assumes "s \<in> set (take 10 (sortByScore (map (suggestionFor ds ctx) avail)))"
  shows "hero_s s \<in> set avail"
proof -
  from assms obtain h where "h \<in> set avail" and "s = suggestionFor ds ctx h"
    unfolding sortByScore_def by (blast dest: in_take_sort_map)
  then show ?thesis by (simp add: hero_suggestionFor)
qed

lemma basic_hero_not_picked:
  assumes "s \<in> set (generateSuggestions this ds rf limit)"
  shows "id_h (hero_d s) \<notin> pickedHeroes ds"
proof -
  from assms obtain h
    where "h \<in> set (filter (passesRoleFilter rf)
                      (filter (\<lambda>h. id_h h \<notin> pickedHeroes ds) (heroes this)))"
      and "s = calculateHeroScore this h ds"
    unfolding generateSuggestions_def Let_def sliceJS_def by (blast dest: in_take_sort_map)
  then show ?thesis by (simp add: hero_calculateHeroScore)
qed

lemma converted_hero_available:
  assumes "s \<in> set (DraftAnalyzer_generateAdvancedSuggestions this ds ctx rf limit)"
  shows "hero_d s \<in> set (availableHeroes (advancedAnalyzer (integration this)) ds rf)"
proof -
  from assms have "s \<in> set (map (convertSuggestion this) (map (filterComponents allOptions)
       (take 10 (sortByScore (map (suggestionFor ds ctx)
          (availableHeroes (advancedAnalyzer (integration this)) ds rf))))))"
    unfolding DraftAnalyzer_eq by (rule in_set_sliceJS)
  then obtain t where t: "t \<in> set (take 10 (sortByScore (map (suggestionFor ds ctx)
          (availableHeroes (advancedAnalyzer (integration this)) ds rf))))"
    and s: "s = convertSuggestion this (filterComponents allOptions t)"
    by auto
  from advanced_hero_available [OF t] s show ?thesis
    by (simp add: hero_convert hero_filterComponents)
qed

lemma picked_id_not_available:
  assumes "Some p \<in> set (yourTeam ds) \<union> set (enemyTeam ds)"
    and "h \<in> set (availableHeroes x ds rf)"
  shows "id_h h \<noteq> id_h p"
proof
  assume eq: "id_h h = id_h p"
  from assms(1) have "p \<in> set (presentHeroes (yourTeam ds)) \<or> p \<in> set (presentHeroes (enemyTeam ds))"
    using slot_present by auto
  then have "teamHasId (yourTeam ds) (id_h p) \<or> teamHasId (enemyTeam ds) (id_h p)"
    by (auto simp add: teamHasId_iff)
  with available_not_picked [OF assms(2)] eq show False by simp
qed

text \<open>
  Claim C1. A hero that occupies a slot of either team is never the hero of a suggestion:
  not of the advanced analyzer, not of the basic scorer, and not of the engine's advanced
  suggestions.
\<close>

theorem picked_heroes_never_suggested:
  assumes "Some p \<in> set (yourTeam ds) \<union> set (enemyTeam ds)"
  shows "(\<exists>res. generateAdvancedSuggestions a ds ctx rf = Inr res
              \<and> id_h p \<notin> set (map (\<lambda>s. id_h (hero_s s)) res))
         \<and> id_h p \<notin> set (map (\<lambda>s. id_h (hero_d s)) (generateSuggestions this ds rf limit))
         \<and> id_h p \<notin> set (map (\<lambda>s. id_h (hero_d s))
                         (DraftAnalyzer_generateAdvancedSuggestions this ds ctx rf limit))"
proof -
  have one: "id_h p \<notin> set (map (\<lambda>s. id_h (hero_s s))
      (take 10 (sortByScore (map (suggestionFor ds ctx) (availableHeroes a ds rf)))))"
    using picked_id_not_available [OF assms] advanced_hero_available by fastforce
  from assms have "id_h p \<in> pickedHeroes ds"
    using slot_present [of p] by (auto simp add: pickedHeroes_def)
  then have two: "id_h p \<notin> set (map (\<lambda>s. id_h (hero_d s)) (generateSuggestions this ds rf limit))"
    using basic_hero_not_picked by fastforce
  have three: "id_h p \<notin> set (map (\<lambda>s. id_h (hero_d s))
                         (DraftAnalyzer_generateAdvancedSuggestions this ds ctx rf limit))"
    using picked_id_not_available [OF assms] converted_hero_available by fastforce
  from one two three show ?thesis
    by (simp add: generateAdvancedSuggestions_eq)
qed

lemma availableHeroes_exampleDraft:
  "availableHeroes (advancedAnalyzer (integration exampleAnalyzer)) exampleDraft None
     = [initiatorHero, supportHero]"
  by (simp add: availableHeroes_def exampleAnalyzer_def newDraftAnalyzer_def fourRoleTeam_def
     exampleDraft_def teamHasId_def carryHero_def nukerHero_def initiatorHero_def supportHero_def)




text \<open>
  The carry is in a slot of the example draft; its id is in no suggestion of the engine,
  which returns a suggestion for each of the two heroes that are left.
\<close>

theorem picked_heroes_never_suggested_witness:
  "Some carryHero \<in> set (yourTeam exampleDraft) \<union> set (enemyTeam exampleDraft)
   \<and> id_h carryHero \<notin> set (map (\<lambda>s. id_h (hero_d s))
        (generateSuggestions exampleAnalyzer exampleDraft None 10))
   \<and> id_h carryHero \<notin> set (map (\<lambda>s. id_h (hero_d s))
        (DraftAnalyzer_generateAdvancedSuggestions exampleAnalyzer exampleDraft emptyContext None 10))
   \<and> length (DraftAnalyzer_generateAdvancedSuggestions exampleAnalyzer exampleDraft
               emptyContext None 10) = 2"
proof -
  have h: "Some carryHero \<in> set (yourTeam exampleDraft) \<union> set (enemyTeam exampleDraft)"
    by (simp add: exampleDraft_def)
  have two: "length (DraftAnalyzer_generateAdvancedSuggestions exampleAnalyzer exampleDraft
               emptyContext None 10) = 2"
    by (simp add: DraftAnalyzer_eq availableHeroes_exampleDraft length_sortByScore
        length_sliceJS sliceEnd_numeral)
  from h two picked_heroes_never_suggested [OF h, of "advancedAnalyzer (integration exampleAnalyzer)"
      emptyContext None exampleAnalyzer 10]
  show ?thesis by blast
qed










text \<open>
  Claim C8. An analyzer constructed with an empty hero list returns the empty list for
  every draft state, context, role filter and limit, and raises nothing: the advanced
  analyzer returns normally (also with a callback that could throw), and so do the
  integration layer and both entry points of the engine.
\<close>

theorem empty_hero_list_gives_empty_result:
  "generateAdvancedSuggestions \<lparr> heroes_a = [], heroStats_a = stats \<rparr> ds ctx rf = Inr []
   \<and> generateAdvancedSuggestions_with callback \<lparr> heroes_a = [], heroStats_a = stats \<rparr> ds ctx rf
       = Inr []
   \<and> getEnhancedRecommendations_with callback
        \<lparr> advancedAnalyzer = \<lparr> heroes_a = [], heroStats_a = stats \<rparr> \<rparr> ds ctx rf opts = Inr []
   \<and> DraftAnalyzer_generateAdvancedSuggestions
        ((newDraftAnalyzer [] stats) \<lparr> matchupData := md \<rparr>) ds ctx rf limit = []
   \<and> generateSuggestions ((newDraftAnalyzer [] stats) \<lparr> matchupData := md \<rparr>) ds rf limit = []"
  by (simp add: generateAdvancedSuggestions_def generateAdvancedSuggestions_with_def
      getEnhancedRecommendations_with_def availableHeroes_def
      DraftAnalyzer_generateAdvancedSuggestions_def DraftAnalyzer_tryCatch_def
      DraftAnalyzer_generateAdvancedSuggestions_with_def generateSuggestions_def
      newDraftAnalyzer_def sortByScore_def sliceJS_def)








end
